theory Spec2Isabelle
  imports Complex_Main
begin

section \<open>Data model (src/types/index.ts)\<close>

text \<open>
  Date-time strings of the store are written by \<^verbatim>\<open>new Date().toISOString()\<close> and read
  back by \<^verbatim>\<open>new Date(s)\<close>; such a string is modelled by the time value it denotes, the
  number of milliseconds since 1970-01-01T00:00:00Z. The current time, \<^verbatim>\<open>new Date()\<close>, is
  the parameter \<open>now\<close> of every function that reads the clock.
\<close>

type_synonym timeValue = int

datatype role = Owner | Assistant | Admin

datatype licenseType = Days15 | Month1 | Months3 | Months6 | Year1

record businessLicense =
  licenseType :: licenseType
  startDate :: timeValue
  endDate :: timeValue
  isActive :: bool
  assignedBy :: string
  assignedAt :: timeValue
  renewalCount :: "int option"
  canceledAt :: "timeValue option"
  canceledBy :: "string option"

record accessEntry =
  accessBusinessId :: string
  accessBusinessName :: string
  accessBusinessKey :: string
  addedAt :: timeValue

record user =
  uid :: string
  userRole :: role
  userBusinessId :: "string option"
  businessAccess :: "(string \<times> accessEntry) list"
  currentBusiness :: "string option"
  isBlocked :: "bool option"
  blockedReason :: "string option"
  userUpdatedAt :: "timeValue option"

record business =
  businessName :: string
  ownerId :: string
  businessKey :: string
  license :: "businessLicense option"
  businessIsActive :: "bool option"
  businessUpdatedAt :: "timeValue option"

record licenseStatus =
  isValid :: bool
  isExpired :: bool
  isExpiringSoon :: bool
  daysRemaining :: int
  statusLicense :: "businessLicense option"
  statusBusinessId :: "string option"

text \<open>JavaScript truthiness of an optional boolean field: absent and \<open>false\<close> are falsy.\<close>

definition truthy :: "bool option \<Rightarrow> bool" where
  "truthy b = (b = Some True)"

section \<open>The host's Date object\<close>

text \<open>
  The license code computes with JavaScript \<^verbatim>\<open>Date\<close> objects. The functions below
  follow the ECMAScript definitions of the abstract date operations (Day, TimeWithinDay,
  DaysInYear, DayFromYear, YearFromTime, InLeapYear, MonthFromTime, DateFromTime, MakeDay,
  MakeDate, LocalTime, UTC) on integer time values. The offset of the host's time zone,
  in milliseconds, is the parameter \<open>tza\<close>; it is taken to be the same at every instant
  (daylight-saving transitions are outside the model). Time values stay within the range
  where TimeClip is the identity.
\<close>

definition msPerDay :: int where
  "msPerDay = 86400000"

definition Day :: "timeValue \<Rightarrow> int" where
  "Day t = t div msPerDay"

definition TimeWithinDay :: "timeValue \<Rightarrow> int" where
  "TimeWithinDay t = t mod msPerDay"

definition DaysInYear :: "int \<Rightarrow> int" where
  "DaysInYear y =
     (if y mod 4 \<noteq> 0 then 365
      else if y mod 100 \<noteq> 0 then 366
      else if y mod 400 \<noteq> 0 then 365
      else 366)"

definition DayFromYear :: "int \<Rightarrow> int" where
  "DayFromYear y =
     365 * (y - 1970) + (y - 1969) div 4 - (y - 1901) div 100 + (y - 1601) div 400"

lemma div_step:
  fixes a k :: int
  assumes "0 < k"
  shows "(a + 1) div k = a div k + (if (a + 1) mod k = 0 then 1 else 0)"
proof (cases "a mod k = k - 1")
  case True
  have "a + 1 = k * (a div k) + (a mod k + 1)" by simp
  also have "\<dots> = k * (a div k) + k" using True by simp
  also have "\<dots> = (a div k + 1) * k" by (simp add: algebra_simps)
  finally have "a + 1 = (a div k + 1) * k" .
  then have "(a + 1) div k = a div k + 1 \<and> (a + 1) mod k = 0"
    using assms by simp
  then show ?thesis by simp
next
  case False
  have r: "0 \<le> a mod k" "a mod k < k" using assms by simp_all
  have "a + 1 = k * (a div k) + (a mod k + 1)" by simp
  moreover have "0 \<le> a mod k + 1" "a mod k + 1 < k" using r False by simp_all
  ultimately have "(a + 1) div k = a div k \<and> (a + 1) mod k = a mod k + 1"
    by (metis int_div_pos_eq int_mod_pos_eq)
  then show ?thesis using r by simp
qed

lemma mod_shift:
  fixes y k c :: int
  assumes "k dvd c"
  shows "((y - c) mod k = 0) = (y mod k = 0)"
  using assms by (simp add: mod_eq_0_iff_dvd dvd_diff_left_iff)

lemma DayFromYear_step: "DayFromYear (y + 1) = DayFromYear y + DaysInYear y"
proof -
  have a: "(y + 1 - 1969) div 4 = (y - 1969) div 4 + (if y mod 4 = 0 then 1 else 0)"
    using div_step [of 4 "y - 1969"] mod_shift [of 4 1968 y] by (simp add: algebra_simps)
  have b: "(y + 1 - 1901) div 100 = (y - 1901) div 100 + (if y mod 100 = 0 then 1 else 0)"
    using div_step [of 100 "y - 1901"] mod_shift [of 100 1900 y] by (simp add: algebra_simps)
  have c: "(y + 1 - 1601) div 400 = (y - 1601) div 400 + (if y mod 400 = 0 then 1 else 0)"
    using div_step [of 400 "y - 1601"] mod_shift [of 400 1600 y] by (simp add: algebra_simps)
  have d: "y mod 100 = 0" if "y mod 400 = 0"
    using that mod_mod_cancel [of 100 400 y] by simp
  have e: "y mod 4 = 0" if "y mod 100 = 0"
    using that mod_mod_cancel [of 4 100 y] by simp
  show ?thesis
    unfolding DayFromYear_def DaysInYear_def a b c
    using d e by auto
qed

lemma DaysInYear_ge: "365 \<le> DaysInYear y"
  by (simp add: DaysInYear_def)


text \<open>
  YearFromTime is specified as the largest year whose first day is not after the given
  day. It is computed by a search upwards from an estimate that is never too large.
\<close>

function yearSearch :: "int \<Rightarrow> int \<Rightarrow> int" where
  "yearSearch d y = (if DayFromYear (y + 1) \<le> d then yearSearch d (y + 1) else y)"
  by pat_completeness auto
termination
proof (relation "measure (\<lambda>(d, y). nat (d - DayFromYear y))")
  show "wf (measure (\<lambda>(d, y). nat (d - DayFromYear y)))" by simp
next
  fix d y :: int
  assume "DayFromYear (y + 1) \<le> d"
  then show "((d, y + 1), (d, y)) \<in> measure (\<lambda>(d, y). nat (d - DayFromYear y))"
    using DayFromYear_step [of y] DaysInYear_ge [of y] by simp
qed

declare yearSearch.simps [simp del]

definition YearFromDay :: "int \<Rightarrow> int" where
  "YearFromDay d = yearSearch d (1970 + (if 0 \<le> d then d div 366 else d div 365))"

definition YearFromTime :: "timeValue \<Rightarrow> int" where
  "YearFromTime t = YearFromDay (Day t)"

definition InLeapYear :: "timeValue \<Rightarrow> int" where
  "InLeapYear t = (if DaysInYear (YearFromTime t) = 366 then 1 else 0)"

definition DayWithinYear :: "timeValue \<Rightarrow> int" where
  "DayWithinYear t = Day t - DayFromYear (YearFromTime t)"

definition MonthFromTime :: "timeValue \<Rightarrow> int" where
  "MonthFromTime t =
     (let d = DayWithinYear t; l = InLeapYear t in
      if d < 31 then 0
      else if d < 59 + l then 1
      else if d < 90 + l then 2
      else if d < 120 + l then 3
      else if d < 151 + l then 4
      else if d < 181 + l then 5
      else if d < 212 + l then 6
      else if d < 243 + l then 7
      else if d < 273 + l then 8
      else if d < 304 + l then 9
      else if d < 334 + l then 10
      else 11)"

definition DateFromTime :: "timeValue \<Rightarrow> int" where
  "DateFromTime t =
     (let d = DayWithinYear t; l = InLeapYear t; m = MonthFromTime t in
      if m = 0 then d + 1
      else if m = 1 then d - 30
      else if m = 2 then d - 58 - l
      else if m = 3 then d - 89 - l
      else if m = 4 then d - 119 - l
      else if m = 5 then d - 150 - l
      else if m = 6 then d - 180 - l
      else if m = 7 then d - 211 - l
      else if m = 8 then d - 242 - l
      else if m = 9 then d - 272 - l
      else if m = 10 then d - 303 - l
      else d - 333 - l)"

text \<open>
  MakeDay(year, month, date): the day number of the first day of month \<open>month mod 12\<close> of
  year \<open>year + month div 12\<close>, plus \<open>date - 1\<close>. A month or a date out of range rolls
  over into the following months.
\<close>

definition firstDayOfMonth :: "int \<Rightarrow> int \<Rightarrow> int" where
  "firstDayOfMonth ym mn =
     (let l = (if DaysInYear ym = 366 then 1 else 0) in
      DayFromYear ym +
      (if mn = 0 then 0
       else if mn = 1 then 31
       else if mn = 2 then 59 + l
       else if mn = 3 then 90 + l
       else if mn = 4 then 120 + l
       else if mn = 5 then 151 + l
       else if mn = 6 then 181 + l
       else if mn = 7 then 212 + l
       else if mn = 8 then 243 + l
       else if mn = 9 then 273 + l
       else if mn = 10 then 304 + l
       else 334 + l))"

definition MakeDay :: "int \<Rightarrow> int \<Rightarrow> int \<Rightarrow> int" where
  "MakeDay year month date = firstDayOfMonth (year + month div 12) (month mod 12) + date - 1"

definition MakeDate :: "int \<Rightarrow> int \<Rightarrow> timeValue" where
  "MakeDate day time = day * msPerDay + time"

definition LocalTime :: "int \<Rightarrow> timeValue \<Rightarrow> timeValue" where
  "LocalTime tza t = t + tza"

definition UTC :: "int \<Rightarrow> timeValue \<Rightarrow> timeValue" where
  "UTC tza t = t - tza"

definition getDate :: "int \<Rightarrow> timeValue \<Rightarrow> int" where
  "getDate tza t = DateFromTime (LocalTime tza t)"

definition getMonth :: "int \<Rightarrow> timeValue \<Rightarrow> int" where
  "getMonth tza t = MonthFromTime (LocalTime tza t)"

definition getFullYear :: "int \<Rightarrow> timeValue \<Rightarrow> int" where
  "getFullYear tza t = YearFromTime (LocalTime tza t)"

definition setDate :: "int \<Rightarrow> timeValue \<Rightarrow> int \<Rightarrow> timeValue" where
  "setDate tza t dt =
     (let lt = LocalTime tza t in
      UTC tza (MakeDate (MakeDay (YearFromTime lt) (MonthFromTime lt) dt) (TimeWithinDay lt)))"

definition setMonth :: "int \<Rightarrow> timeValue \<Rightarrow> int \<Rightarrow> timeValue" where
  "setMonth tza t m =
     (let lt = LocalTime tza t in
      UTC tza (MakeDate (MakeDay (YearFromTime lt) m (DateFromTime lt)) (TimeWithinDay lt)))"

definition setFullYear :: "int \<Rightarrow> timeValue \<Rightarrow> int \<Rightarrow> timeValue" where
  "setFullYear tza t y =
     (let lt = LocalTime tza t in
      UTC tza (MakeDate (MakeDay y (MonthFromTime lt) (DateFromTime lt)) (TimeWithinDay lt)))"

section \<open>License state evaluator\<close>

text \<open>
  \<^verbatim>\<open>isLicenseExpired\<close> of RealTimeLicenseService (realTimeLicenseService.ts, lines 29-32):
  \<^verbatim>\<open>if (!license || !license.isActive) return true;
  return new Date() > new Date(license.endDate);\<close>
\<close>

definition isLicenseExpired :: "timeValue \<Rightarrow> businessLicense option \<Rightarrow> bool" where
  "isLicenseExpired now lic =
     (case lic of
        None \<Rightarrow> True
      | Some l \<Rightarrow> if \<not> isActive l then True else now > endDate l)"

text \<open>The copy of the same function in LicenseService (part_001, lines 82-85).\<close>

definition LicenseService_isLicenseExpired :: "timeValue \<Rightarrow> businessLicense option \<Rightarrow> bool" where
  "LicenseService_isLicenseExpired now lic =
     (case lic of
        None \<Rightarrow> True
      | Some l \<Rightarrow> if \<not> isActive l then True else now > endDate l)"

text \<open>
  \<^verbatim>\<open>isLicenseExpiringSoon\<close> (realTimeLicenseService.ts, lines 35-40): the end date is
  compared with the current time moved three calendar days ahead by
  \<^verbatim>\<open>setDate(getDate() + 3)\<close>.
\<close>

definition isLicenseExpiringSoon :: "int \<Rightarrow> timeValue \<Rightarrow> businessLicense option \<Rightarrow> bool" where
  "isLicenseExpiringSoon tza now lic =
     (case lic of
        None \<Rightarrow> False
      | Some l \<Rightarrow>
          if \<not> isActive l then False
          else (let threeDaysFromNow = setDate tza now (getDate tza now + 3)
                in endDate l \<le> threeDaysFromNow))"

text \<open>
  \<^verbatim>\<open>getDaysRemaining\<close> (lines 43-49): \<^verbatim>\<open>Math.ceil(diffTime / (1000 * 60 * 60 * 24))\<close>; the
  ceiling of the quotient of two integers is written with the floor division of HOL.
\<close>

definition getDaysRemaining :: "timeValue \<Rightarrow> businessLicense option \<Rightarrow> int" where
  "getDaysRemaining now lic =
     (case lic of
        None \<Rightarrow> 0
      | Some l \<Rightarrow>
          if \<not> isActive l then 0
          else (let diffTime = endDate l - now in - ((- diffTime) div (1000 * 60 * 60 * 24))))"

section \<open>License lifecycle manager (LicenseService, part_001)\<close>

text \<open>
  \<^verbatim>\<open>calculateEndDate\<close> (part_001, lines 18-40). The start string is parsed into a Date,
  one of its local calendar fields is set, and the Date is printed again.
\<close>

definition calculateEndDate :: "int \<Rightarrow> timeValue \<Rightarrow> licenseType \<Rightarrow> timeValue" where
  "calculateEndDate tza startDateValue ty =
     (let start = startDateValue in
      case ty of
        Days15 \<Rightarrow> setDate tza start (getDate tza start + 15)
      | Month1 \<Rightarrow> setMonth tza start (getMonth tza start + 1)
      | Months3 \<Rightarrow> setMonth tza start (getMonth tza start + 3)
      | Months6 \<Rightarrow> setMonth tza start (getMonth tza start + 6)
      | Year1 \<Rightarrow> setFullYear tza start (getFullYear tza start + 1))"

text \<open>
  A multi-path update handed to the store: the reference it is issued at, and the
  property-value pairs in the order the code adds them.
\<close>

datatype jsonValue = JBool bool | JString string | JTime timeValue | JNull

record storeUpdate =
  updateRef :: string
  updateValues :: "(string \<times> jsonValue) list"

datatype error =
    BusinessNotFound
  | NoActiveLicense
  | KeyGenerationFailed
  | NotAuthenticated
  | AccessDenied
  | RecordIdMissing
  | RecordNotFound
  | DeleteDenied

definition userPath :: "string \<Rightarrow> string \<Rightarrow> string" where
  "userPath userId field = ''users/'' @ userId @ ''/'' @ field"

text \<open>
  The body of the \<^verbatim>\<open>forEach\<close> of \<^verbatim>\<open>blockBusinessUsers\<close> (part_001, lines 171-206): the
  flag starts false and each of three tests may set it. \<^verbatim>\<open>user.businessAccess[businessId]\<close>
  is an object when the entry is present, hence truthy.
\<close>

definition shouldBlock :: "string \<Rightarrow> user \<Rightarrow> bool" where
  "shouldBlock businessId u =
     (let s0 = False;
          s1 = (if userBusinessId u = Some businessId then True else s0);
          s2 = (if map_of (businessAccess u) businessId \<noteq> None then True else s1);
          s3 = (if userRole u = Owner \<and> currentBusiness u = Some businessId then True else s2)
      in s3)"

definition blockUpdates ::
  "timeValue \<Rightarrow> (string \<times> user) list \<Rightarrow> string \<Rightarrow> string \<Rightarrow> (string \<times> jsonValue) list" where
  "blockUpdates now users businessId reason =
     concat (map (\<lambda>(userId, u).
       if shouldBlock businessId u
       then [(userPath userId ''isBlocked'', JBool True),
             (userPath userId ''blockedReason'', JString reason),
             (userPath userId ''updatedAt'', JTime now)]
       else []) users)"

text \<open>
  \<^verbatim>\<open>blockBusinessUsers\<close> (lines 161-216). \<open>users\<close> is the value of the node \<^verbatim>\<open>users\<close>, a
  list of user id and record in the order of \<^verbatim>\<open>Object.keys\<close>; the empty list is the
  snapshot that does not exist. The result is the update the function issues, if any:
  \<^verbatim>\<open>update(usersRef, updates)\<close> with \<^verbatim>\<open>usersRef = ref(database, 'users')\<close>.
\<close>

definition blockBusinessUsers ::
  "timeValue \<Rightarrow> (string \<times> user) list \<Rightarrow> string \<Rightarrow> string \<Rightarrow> storeUpdate option" where
  "blockBusinessUsers now users businessId reason =
     (if users = [] then None
      else (let updates = blockUpdates now users businessId reason in
            if length updates > 0
            then Some \<lparr> updateRef = ''users'', updateValues = updates \<rparr>
            else None))"

text \<open>The body of the \<^verbatim>\<open>forEach\<close> of \<^verbatim>\<open>unblockBusinessUsers\<close> (lines 227-253).\<close>

definition shouldUnblock :: "string \<Rightarrow> user \<Rightarrow> bool" where
  "shouldUnblock businessId u =
     (let s0 = False in
      if truthy (isBlocked u)
      then (let s1 = (if userBusinessId u = Some businessId then True else s0);
                s2 = (if map_of (businessAccess u) businessId \<noteq> None then True else s1);
                s3 = (if userRole u = Owner \<and> currentBusiness u = Some businessId
                      then True else s2)
            in s3)
      else s0)"

definition unblockUpdates ::
  "timeValue \<Rightarrow> (string \<times> user) list \<Rightarrow> string \<Rightarrow> (string \<times> jsonValue) list" where
  "unblockUpdates now users businessId =
     concat (map (\<lambda>(userId, u).
       if shouldUnblock businessId u
       then [(userPath userId ''isBlocked'', JBool False),
             (userPath userId ''blockedReason'', JNull),
             (userPath userId ''updatedAt'', JTime now)]
       else []) users)"

definition unblockBusinessUsers ::
  "timeValue \<Rightarrow> (string \<times> user) list \<Rightarrow> string \<Rightarrow> storeUpdate option" where
  "unblockBusinessUsers now users businessId =
     (if users = [] then None
      else (let updates = unblockUpdates now users businessId in
            if length updates > 0
            then Some \<lparr> updateRef = ''users'', updateValues = updates \<rparr>
            else None))"

text \<open>
  \<^verbatim>\<open>assignLicense\<close> (lines 43-79). \<open>businesses\<close> is the node \<^verbatim>\<open>businesses\<close> of the store.
  The clock readings of one call are one instant \<open>now\<close>. The result is the error thrown,
  or the node after \<^verbatim>\<open>update(businessRef, ...)\<close> together with the update issued by
  \<^verbatim>\<open>unblockBusinessUsers\<close>. \<^verbatim>\<open>business.license?.renewalCount || 0\<close> reads an absent license
  and an absent count as 0.
\<close>

definition currentRenewalCount :: "business \<Rightarrow> int" where
  "currentRenewalCount b =
     (case license b of
        None \<Rightarrow> 0
      | Some l \<Rightarrow> (case renewalCount l of None \<Rightarrow> 0 | Some n \<Rightarrow> n))"

definition assignLicense ::
  "int \<Rightarrow> timeValue \<Rightarrow> (string \<rightharpoonup> business) \<Rightarrow> (string \<times> user) list \<Rightarrow>
   string \<Rightarrow> licenseType \<Rightarrow> string \<Rightarrow> error + (string \<rightharpoonup> business) \<times> storeUpdate option" where
  "assignLicense tza now businesses users businessId ty adminUserId =
     (let startDate0 = now;
          endDate0 = calculateEndDate tza startDate0 ty in
      case businesses businessId of
        None \<Rightarrow> Inl BusinessNotFound
      | Some b \<Rightarrow>
          (let newLicense =
                 \<lparr> licenseType = ty, startDate = startDate0, endDate = endDate0,
                   isActive = True, assignedBy = adminUserId, assignedAt = now,
                   renewalCount = Some (currentRenewalCount b + 1),
                   canceledAt = None, canceledBy = None \<rparr>;
               b' = b\<lparr> license := Some newLicense, businessIsActive := Some True,
                        businessUpdatedAt := Some now \<rparr>
           in Inr (businesses(businessId \<mapsto> b'), unblockBusinessUsers now users businessId)))"

text \<open>\<^verbatim>\<open>cancelLicense\<close> (lines 119-158); the cancelled license is the current one with
  four fields replaced.\<close>

definition cancelLicense ::
  "timeValue \<Rightarrow> (string \<rightharpoonup> business) \<Rightarrow> (string \<times> user) list \<Rightarrow>
   string \<Rightarrow> string \<Rightarrow> error + (string \<rightharpoonup> business) \<times> storeUpdate option" where
  "cancelLicense now businesses users businessId adminUserId =
     (case businesses businessId of
        None \<Rightarrow> Inl BusinessNotFound
      | Some b \<Rightarrow>
          (case license b of
             None \<Rightarrow> Inl NoActiveLicense
           | Some currentLicense \<Rightarrow>
               (let canceledLicense =
                      currentLicense\<lparr> isActive := False, canceledAt := Some now,
                                      canceledBy := Some adminUserId, endDate := now \<rparr>;
                    b' = b\<lparr> license := Some canceledLicense, businessIsActive := Some False,
                             businessUpdatedAt := Some now \<rparr>
                in Inr (businesses(businessId \<mapsto> b'),
                        blockBusinessUsers now users businessId
                          ''Licencia cancelada por administrador''))))"

text \<open>
  \<^verbatim>\<open>blockBusinessForExpiredLicense\<close> (lines 105-116), for a business that has a license
  (the sweep \<^verbatim>\<open>checkAllLicenses\<close> calls it for no other).
\<close>

definition blockBusinessForExpiredLicense ::
  "timeValue \<Rightarrow> (string \<rightharpoonup> business) \<Rightarrow> (string \<times> user) list \<Rightarrow>
   string \<Rightarrow> (string \<rightharpoonup> business) \<times> storeUpdate option" where
  "blockBusinessForExpiredLicense now businesses users businessId =
     ((case businesses businessId of
         None \<Rightarrow> businesses
       | Some b \<Rightarrow>
           businesses(businessId \<mapsto>
             b\<lparr> businessIsActive := Some False,
                license := map_option (\<lambda>l. l\<lparr> isActive := False \<rparr>) (license b),
                businessUpdatedAt := Some now \<rparr>)),
      blockBusinessUsers now users businessId ''Licencia expirada'')"

section \<open>Real-time license monitor (realTimeLicenseService.ts)\<close>

text \<open>The outcome of \<^verbatim>\<open>get\<close>: the read is rejected, the node does not exist, or its value.\<close>

datatype 'a fetched = Failed | Missing | Found 'a

definition noLicenseStatus :: "string option \<Rightarrow> licenseStatus" where
  "noLicenseStatus businessId =
     \<lparr> isValid = False, isExpired = True, isExpiringSoon = False, daysRemaining = 0,
       statusLicense = None, statusBusinessId = businessId \<rparr>"

text \<open>
  The status computed from the value of a business node (lines 68-83, and again lines
  148-163 in the listener). \<^verbatim>\<open>business.isActive !== false\<close> holds for an absent flag.
\<close>

definition businessLicenseStatus :: "int \<Rightarrow> timeValue \<Rightarrow> string \<Rightarrow> business \<Rightarrow> licenseStatus" where
  "businessLicenseStatus tza now businessId b =
     (let lic = license b;
          active = (businessIsActive b \<noteq> Some False);
          expired = isLicenseExpired now lic;
          expiringSoon = isLicenseExpiringSoon tza now lic;
          remaining = getDaysRemaining now lic
      in \<lparr> isValid = (\<not> expired \<and> active \<and> (case lic of None \<Rightarrow> False | Some l \<Rightarrow> isActive l)),
           isExpired = expired, isExpiringSoon = expiringSoon, daysRemaining = remaining,
           statusLicense = lic, statusBusinessId = Some businessId \<rparr>)"

text \<open>\<^verbatim>\<open>checkBusinessLicense\<close> (lines 52-95); \<open>db\<close> answers the read of a business node.\<close>

definition checkBusinessLicense ::
  "int \<Rightarrow> timeValue \<Rightarrow> (string \<Rightarrow> business fetched) \<Rightarrow> string \<Rightarrow> licenseStatus" where
  "checkBusinessLicense tza now db businessId =
     (case db businessId of
        Missing \<Rightarrow> noLicenseStatus (Some businessId)
      | Found b \<Rightarrow> businessLicenseStatus tza now businessId b
      | Failed \<Rightarrow> noLicenseStatus (Some businessId))"

text \<open>
  The business a user's license is read from (lines 111-118 and 205-211); a string is
  truthy when it is present and not empty.
\<close>

definition nonEmpty :: "string option \<Rightarrow> bool" where
  "nonEmpty s = (case s of None \<Rightarrow> False | Some x \<Rightarrow> x \<noteq> [])"

definition licenseBusinessId :: "user \<Rightarrow> string option" where
  "licenseBusinessId u =
     (if userRole u = Owner \<and> nonEmpty (userBusinessId u) then userBusinessId u
      else if userRole u = Assistant \<and> nonEmpty (currentBusiness u) then currentBusiness u
      else None)"

text \<open>\<^verbatim>\<open>checkUserLicenseStatus\<close> (lines 98-132).\<close>

definition checkUserLicenseStatus ::
  "int \<Rightarrow> timeValue \<Rightarrow> (string \<Rightarrow> business fetched) \<Rightarrow> user \<Rightarrow> licenseStatus" where
  "checkUserLicenseStatus tza now db u =
     (if userRole u = Admin
      then \<lparr> isValid = True, isExpired = False, isExpiringSoon = False, daysRemaining = 999,
             statusLicense = None, statusBusinessId = None \<rparr>
      else (case licenseBusinessId u of
              None \<Rightarrow> noLicenseStatus None
            | Some businessId \<Rightarrow> checkBusinessLicense tza now db businessId))"

text \<open>
  Setting up a listener. The service keeps the identifiers of its registered listeners.
  The outcome records the statuses handed to the callback during the call, the
  registered listeners afterwards, and the listener that the returned clean-up function
  removes (none for the no-op function).
\<close>

record listenerSetup =
  delivered :: "licenseStatus list"
  registered :: "string list"
  cleanupOf :: "string option"

definition removeLicenseListener :: "string list \<Rightarrow> string \<Rightarrow> string list" where
  "removeLicenseListener listeners listenerId = filter (\<lambda>l. l \<noteq> listenerId) listeners"

text \<open>
  \<^verbatim>\<open>setupBusinessLicenseListener\<close> (lines 135-185) registers \<^verbatim>\<open>onValue\<close> on the business
  node; the store then calls \<open>onBusinessValue\<close> with every value of the node.
\<close>

definition setupBusinessLicenseListener :: "string list \<Rightarrow> string \<Rightarrow> listenerSetup" where
  "setupBusinessLicenseListener listeners businessId =
     (let listenerId = ''business_'' @ businessId;
          cleaned = removeLicenseListener listeners listenerId
      in \<lparr> delivered = [], registered = cleaned @ [listenerId], cleanupOf = Some listenerId \<rparr>)"

definition onBusinessValue :: "int \<Rightarrow> timeValue \<Rightarrow> string \<Rightarrow> business option \<Rightarrow> licenseStatus" where
  "onBusinessValue tza now businessId snapshot =
     (case snapshot of
        Some b \<Rightarrow> businessLicenseStatus tza now businessId b
      | None \<Rightarrow> noLicenseStatus (Some businessId))"

text \<open>\<^verbatim>\<open>setupUserLicenseListener\<close> (lines 188-226).\<close>

definition setupUserLicenseListener :: "string list \<Rightarrow> user \<Rightarrow> listenerSetup" where
  "setupUserLicenseListener listeners u =
     (if userRole u = Admin
      then \<lparr> delivered =
               [\<lparr> isValid = True, isExpired = False, isExpiringSoon = False,
                  daysRemaining = 999, statusLicense = None, statusBusinessId = None \<rparr>],
             registered = listeners, cleanupOf = None \<rparr>
      else (case licenseBusinessId u of
              None \<Rightarrow>
                \<lparr> delivered = [noLicenseStatus None], registered = listeners,
                  cleanupOf = None \<rparr>
            | Some businessId \<Rightarrow> setupBusinessLicenseListener listeners businessId))"

section \<open>Access control gate (useLicenseGuard, part_008)\<close>

text \<open>
  \<^verbatim>\<open>canAccessSection\<close> (part_008, lines 58-76). The hook reads \<open>currentUser\<close> and
  \<open>licenseStatus\<close> from the session; both may be null.
\<close>

definition readOnlySections :: "string list" where
  "readOnlySections = [''dashboard'', ''notifications'']"

definition canAccessSection :: "user option \<Rightarrow> licenseStatus option \<Rightarrow> string \<Rightarrow> bool" where
  "canAccessSection currentUser status section =
     (case currentUser of
        None \<Rightarrow> False
      | Some u \<Rightarrow>
          if userRole u = Admin then True
          else if truthy (isBlocked u) then section = ''notifications''
          else (case status of
                  None \<Rightarrow> True
                | Some st \<Rightarrow>
                    if \<not> isValid st then section \<in> set readOnlySections else True))"

section \<open>Appointment conflict checker (AppointmentModal, part_007)\<close>

datatype appointmentStatus = Pending | Confirmed | Completed | Cancelled | NoShow

record service =
  serviceId :: string
  serviceName :: string
  duration :: int
  resources :: int

record appointment =
  appointmentId :: string
  clientId :: string
  appointmentServiceId :: string
  appointmentDate :: string
  startTime :: string
  endTime :: string
  status :: appointmentStatus

record formData =
  formClientId :: string
  formServiceId :: string
  formDate :: string
  formStartTime :: string
  formEndTime :: string
  formStatus :: appointmentStatus

text \<open>\<^verbatim>\<open>timeString.split(':')\<close>.\<close>

fun splitOn :: "char \<Rightarrow> string \<Rightarrow> string list" where
  "splitOn c [] = [[]]"
| "splitOn c (x # xs) =
     (if x = c then [] # splitOn c xs
      else (case splitOn c xs of
              [] \<Rightarrow> [[x]]
            | w # ws \<Rightarrow> (x # w) # ws))"

text \<open>
  \<^verbatim>\<open>Number\<close> applied to a string, with \<open>None\<close> for NaN. Time strings come from time
  inputs and are of the form HH:MM, so the pieces are strings of decimal digits: the
  value of such a string is its decimal value, and the empty string gives 0. The other
  numeric literals that \<^verbatim>\<open>Number\<close> reads (a sign, a fraction, an exponent, a radix
  prefix, surrounding white space) are outside the model.
\<close>

definition digitValue :: "char \<Rightarrow> int option" where
  "digitValue c = map_of (zip ''0123456789'' [0, 1, 2, 3, 4, 5, 6, 7, 8, 9]) c"

fun decimalValue :: "int \<Rightarrow> string \<Rightarrow> int option" where
  "decimalValue acc [] = Some acc"
| "decimalValue acc (c # cs) =
     (case digitValue c of
        None \<Rightarrow> None
      | Some d \<Rightarrow> decimalValue (acc * 10 + d) cs)"

definition Number_js :: "string \<Rightarrow> int option" where
  "Number_js s = decimalValue 0 s"

text \<open>
  \<^verbatim>\<open>timeToMinutes\<close> (lines 199-202): the first two pieces are destructured; a missing
  piece is \<^verbatim>\<open>undefined\<close> and makes the sum NaN.
\<close>

definition timeToMinutes :: "string \<Rightarrow> int option" where
  "timeToMinutes timeString =
     (case map Number_js (splitOn CHR '':'' timeString) of
        hours # minutes # _ \<Rightarrow>
          (case hours of
             None \<Rightarrow> None
           | Some h \<Rightarrow> (case minutes of None \<Rightarrow> None | Some m \<Rightarrow> Some (h * 60 + m)))
      | _ \<Rightarrow> None)"

text \<open>The comparison \<^verbatim>\<open><\<close> of two numbers: false when either is NaN.\<close>

definition numLess :: "int option \<Rightarrow> int option \<Rightarrow> bool" where
  "numLess a b =
     (case a of
        None \<Rightarrow> False
      | Some x \<Rightarrow> (case b of None \<Rightarrow> False | Some y \<Rightarrow> x < y))"

text \<open>
  \<^verbatim>\<open>checkTimeConflicts\<close> (lines 166-197). \<open>editing\<close> is the \<^verbatim>\<open>appointment\<close> property of
  the modal: the appointment being edited, or none for a new one.
\<close>

definition checkTimeConflicts ::
  "formData \<Rightarrow> service list \<Rightarrow> appointment list \<Rightarrow> appointment option \<Rightarrow> appointment list" where
  "checkTimeConflicts form services appointments editing =
     (if formServiceId form = [] \<or> formDate form = [] \<or> formStartTime form = [] \<or>
         formEndTime form = []
      then []
      else (case find (\<lambda>s. serviceId s = formServiceId form) services of
              None \<Rightarrow> []
            | Some svc \<Rightarrow>
                if resources svc > 1 then []
                else (let startMinutes = timeToMinutes (formStartTime form);
                          endMinutes = timeToMinutes (formEndTime form)
                      in filter (\<lambda>apt.
                           if (case editing of
                                 None \<Rightarrow> False
                               | Some e \<Rightarrow> appointmentId apt = appointmentId e)
                           then False
                           else if appointmentServiceId apt \<noteq> formServiceId form \<or>
                                   appointmentDate apt \<noteq> formDate form
                           then False
                           else if status apt = Cancelled then False
                           else (let aptStartMinutes = timeToMinutes (startTime apt);
                                     aptEndMinutes = timeToMinutes (endTime apt)
                                 in numLess startMinutes aptEndMinutes \<and>
                                    numLess aptStartMinutes endMinutes))
                         appointments)))"

text \<open>The test of \<^verbatim>\<open>handleSubmit\<close> (line 99), which rejects the write.\<close>

definition hasConflict ::
  "formData \<Rightarrow> service list \<Rightarrow> appointment list \<Rightarrow> appointment option \<Rightarrow> bool" where
  "hasConflict form services appointments editing =
     (length (checkTimeConflicts form services appointments editing) > 0)"

text \<open>The form of an appointment opened for editing (the effect at lines 59-69).\<close>

definition formOfAppointment :: "appointment \<Rightarrow> formData" where
  "formOfAppointment a =
     \<lparr> formClientId = clientId a, formServiceId = appointmentServiceId a,
       formDate = appointmentDate a, formStartTime = startTime a,
       formEndTime = endTime a, formStatus = status a \<rparr>"

section \<open>Business keys (part_002)\<close>











section \<open>Digital records of the session layer (AuthContext, part_000)\<close>

record digitalRecord =
  recordClientId :: string
  recordServiceId :: string
  treatment :: string
  createdBy :: "string option"

text \<open>
  The session state the record operations read: the current user and the
  \<^verbatim>\<open>businessAccess\<close> state of the provider.
\<close>

record session =
  currentUser :: "user option"
  sessionBusinessAccess :: "(string \<times> accessEntry) list"

text \<open>\<^verbatim>\<open>validateRecordAccess\<close> (part_000, lines 572-583).\<close>

definition validateRecordAccess :: "session \<Rightarrow> string \<Rightarrow> error + bool" where
  "validateRecordAccess s businessId =
     (case currentUser s of
        None \<Rightarrow> Inl NotAuthenticated
      | Some u \<Rightarrow>
          if userBusinessId u = Some businessId \<or>
             map_of (sessionBusinessAccess s) businessId \<noteq> None
          then Inr True
          else Inl AccessDenied)"

text \<open>
  \<^verbatim>\<open>deleteClientRecord\<close> (lines 713-748). \<open>records\<close> maps a business id and a record id
  to the record stored at \<^verbatim>\<open>businesses/{businessId}/digitalRecords/{recordId}\<close>. The reads
  and the write of the store succeed.
\<close>

definition deleteClientRecord ::
  "session \<Rightarrow> (string \<times> string \<rightharpoonup> digitalRecord) \<Rightarrow> string \<Rightarrow> string \<Rightarrow>
   error + (string \<times> string \<rightharpoonup> digitalRecord)" where
  "deleteClientRecord s records businessId recordId =
     (case validateRecordAccess s businessId of
        Inl e \<Rightarrow> Inl e
      | Inr _ \<Rightarrow>
          if recordId = [] then Inl RecordIdMissing
          else (case records (businessId, recordId) of
                  None \<Rightarrow> Inl RecordNotFound
                | Some recordData \<Rightarrow>
                    if nonEmpty (createdBy recordData) \<and>
                       createdBy recordData \<noteq> map_option uid (currentUser s)
                    then (let isAdmin =
                                (map_option userRole (currentUser s) = Some Owner \<or>
                                 (Option.bind (currentUser s) userBusinessId = Some businessId \<and>
                                  map_option userRole (currentUser s) = Some Assistant))
                          in if \<not> isAdmin then Inl DeleteDenied
                             else Inr (records((businessId, recordId) := None)))
                    else Inr (records((businessId, recordId) := None))))"

section \<open>Properties\<close>

subsection \<open>License expiry\<close>

definition sampleLicense :: businessLicense where
  "sampleLicense =
     \<lparr> licenseType = Month1, startDate = 1705276800000, endDate = 1707955200000,
       isActive = True, assignedBy = ''admin1'', assignedAt = 1705276800000,
       renewalCount = Some 1, canceledAt = None, canceledBy = None \<rparr>"

text \<open>
  Claim C2. For every license record, \<open>isExpired(license)\<close> is true if and only if the
  license is null, or its \<open>isActive\<close> field is false, or the current time is strictly
  after its \<open>endDate\<close>; otherwise it is false. Both copies of the function (the one of the
  real-time service and the one of the license service) satisfy it.
\<close>

theorem isLicenseExpired_iff:
  "(isLicenseExpired now lic \<longleftrightarrow>
      (lic = None \<or> (\<exists>l. lic = Some l \<and> (isActive l = False \<or> endDate l < now)))) \<and>
   (LicenseService_isLicenseExpired now lic \<longleftrightarrow>
      (lic = None \<or> (\<exists>l. lic = Some l \<and> (isActive l = False \<or> endDate l < now))))"
  by (cases lic) (auto simp: isLicenseExpired_def LicenseService_isLicenseExpired_def)

theorem isLicenseExpired_iff_witness:
  "isLicenseExpired 1707955200001 (Some sampleLicense) \<and>
   \<not> isLicenseExpired 1707955200000 (Some sampleLicense) \<and>
   isLicenseExpired 0 (Some (sampleLicense\<lparr>isActive := False\<rparr>)) \<and>
   isLicenseExpired 0 None \<and>
   \<not> LicenseService_isLicenseExpired 1707955200000 (Some sampleLicense)"
  using isLicenseExpired_iff [of 1707955200001 "Some sampleLicense"]
    isLicenseExpired_iff [of 1707955200000 "Some sampleLicense"]
    isLicenseExpired_iff [of 0 "Some (sampleLicense\<lparr>isActive := False\<rparr>)"]
    isLicenseExpired_iff [of 0 None]
  by (simp add: sampleLicense_def)

subsection \<open>Reachable sections\<close>

definition sampleAdmin :: user where
  "sampleAdmin =
     \<lparr> uid = ''admin1'', userRole = Admin, userBusinessId = None, businessAccess = [],
       currentBusiness = None, isBlocked = Some True, blockedReason = None,
       userUpdatedAt = None \<rparr>"

definition sampleOwner :: user where
  "sampleOwner =
     \<lparr> uid = ''owner1'', userRole = Owner, userBusinessId = Some ''b1'', businessAccess = [],
       currentBusiness = Some ''b1'', isBlocked = Some False, blockedReason = None,
       userUpdatedAt = None \<rparr>"

definition sampleAccess :: accessEntry where
  "sampleAccess =
     \<lparr> accessBusinessId = ''b1'', accessBusinessName = ''Salon'',
       accessBusinessKey = ''ABCDEF0123456789'', addedAt = 1705276800000 \<rparr>"

definition blockedAssistant :: user where
  "blockedAssistant =
     \<lparr> uid = ''assistant1'', userRole = Assistant, userBusinessId = None,
       businessAccess = [(''b1'', sampleAccess)], currentBusiness = Some ''b1'',
       isBlocked = Some True, blockedReason = Some ''Licencia expirada'',
       userUpdatedAt = None \<rparr>"

definition inactiveStatus :: licenseStatus where
  "inactiveStatus =
     \<lparr> isValid = False, isExpired = False, isExpiringSoon = False, daysRemaining = 10,
       statusLicense = Some sampleLicense, statusBusinessId = Some ''b1'' \<rparr>"

text \<open>
  Claim C4. For every user and every section name, \<open>canAccessSection\<close> is true for every
  section when the user's role is admin; for a user who is not an admin and is blocked it
  is true exactly for the section \<open>notifications\<close>; for a user who is neither admin nor
  blocked and whose license status is present and not valid it is true exactly for the
  sections \<open>dashboard\<close> and \<open>notifications\<close>; and otherwise (no status yet, or a valid
  one) it is true for all sections.
\<close>

theorem canAccessSection_policy:
  "(userRole u = Admin \<longrightarrow> canAccessSection (Some u) st sec) \<and>
   (userRole u \<noteq> Admin \<and> truthy (isBlocked u) \<longrightarrow>
      canAccessSection (Some u) st sec = (sec = ''notifications'')) \<and>
   (userRole u \<noteq> Admin \<and> \<not> truthy (isBlocked u) \<and> st = Some ls \<and> \<not> isValid ls \<longrightarrow>
      canAccessSection (Some u) st sec = (sec = ''dashboard'' \<or> sec = ''notifications'')) \<and>
   (userRole u \<noteq> Admin \<and> \<not> truthy (isBlocked u) \<and>
      (st = None \<or> (\<exists>v. st = Some v \<and> isValid v)) \<longrightarrow>
      canAccessSection (Some u) st sec)"
  by (auto simp: canAccessSection_def readOnlySections_def)

theorem canAccessSection_policy_witness:
  "canAccessSection (Some sampleAdmin) (Some inactiveStatus) ''services'' \<and>
   canAccessSection (Some blockedAssistant) None ''notifications'' \<and>
   \<not> canAccessSection (Some blockedAssistant) None ''dashboard'' \<and>
   canAccessSection (Some sampleOwner) (Some inactiveStatus) ''dashboard'' \<and>
   \<not> canAccessSection (Some sampleOwner) (Some inactiveStatus) ''clients'' \<and>
   canAccessSection (Some sampleOwner) None ''clients''"
  using canAccessSection_policy [of sampleAdmin "Some inactiveStatus" "''services''"]
    canAccessSection_policy [of blockedAssistant None "''notifications''"]
    canAccessSection_policy [of blockedAssistant None "''dashboard''"]
    canAccessSection_policy
      [of sampleOwner "Some inactiveStatus" "''dashboard''" inactiveStatus]
    canAccessSection_policy
      [of sampleOwner "Some inactiveStatus" "''clients''" inactiveStatus]
    canAccessSection_policy [of sampleOwner None "''clients''"]
  by (simp add: sampleAdmin_def blockedAssistant_def sampleOwner_def inactiveStatus_def
      truthy_def)

subsection \<open>License status of an administrator\<close>

text \<open>
  Claim C10. For every user whose role is admin, \<open>checkUserLicenseStatus\<close> returns, and
  \<open>setupUserLicenseListener\<close> hands to its callback (once, registering no listener), the
  fixed status with \<open>isValid\<close> true, \<open>isExpired\<close> and \<open>isExpiringSoon\<close> false,
  \<open>daysRemaining\<close> 999, and no license and no business id, whatever the store holds and
  whatever the current time is.
\<close>

theorem admin_status_fixed:
  "userRole u = Admin \<Longrightarrow>
     checkUserLicenseStatus tza now db u =
       \<lparr> isValid = True, isExpired = False, isExpiringSoon = False, daysRemaining = 999,
         statusLicense = None, statusBusinessId = None \<rparr> \<and>
     setupUserLicenseListener listeners u =
       \<lparr> delivered =
           [\<lparr> isValid = True, isExpired = False, isExpiringSoon = False,
              daysRemaining = 999, statusLicense = None, statusBusinessId = None \<rparr>],
         registered = listeners, cleanupOf = None \<rparr>"
  by (simp add: checkUserLicenseStatus_def setupUserLicenseListener_def)

theorem admin_status_fixed_witness:
  "daysRemaining
     (checkUserLicenseStatus 0 1707955200001 (\<lambda>b. Found
        \<lparr> businessName = ''Salon'', ownerId = ''owner1'', businessKey = ''ABCDEF0123456789'',
          license = Some sampleLicense, businessIsActive = Some False,
          businessUpdatedAt = None \<rparr>) sampleAdmin) = 999 \<and>
   isValid (checkUserLicenseStatus 0 1707955200001 (\<lambda>b. Failed) sampleAdmin) \<and>
   map daysRemaining (delivered (setupUserLicenseListener [''business_b1''] sampleAdmin))
     = [999] \<and>
   registered (setupUserLicenseListener [''business_b1''] sampleAdmin) = [''business_b1'']"
  using admin_status_fixed [of sampleAdmin 0 1707955200001 "\<lambda>b. Found
        \<lparr> businessName = ''Salon'', ownerId = ''owner1'', businessKey = ''ABCDEF0123456789'',
          license = Some sampleLicense, businessIsActive = Some False,
          businessUpdatedAt = None \<rparr>" "[''business_b1'']"]
    admin_status_fixed [of sampleAdmin 0 1707955200001 "\<lambda>b. Failed" "[''business_b1'']"]
  by (simp add: sampleAdmin_def)

subsection \<open>Appointment conflicts\<close>

lemma timeToMinutes_Nil: "timeToMinutes [] = None"
  by (simp add: timeToMinutes_def Number_js_def)

lemma numLess_None: "numLess None b = False" "numLess a None = False"
  by (simp_all add: numLess_def split: option.splits)

lemma numLess_irrefl: "\<not> numLess a a"
  by (simp add: numLess_def split: option.splits)

definition conflictsWith :: "formData \<Rightarrow> appointment option \<Rightarrow> appointment \<Rightarrow> bool" where
  "conflictsWith form editing a \<longleftrightarrow>
     (case editing of None \<Rightarrow> True | Some e \<Rightarrow> appointmentId a \<noteq> appointmentId e) \<and>
     appointmentServiceId a = formServiceId form \<and>
     appointmentDate a = formDate form \<and>
     status a \<noteq> Cancelled \<and>
     numLess (timeToMinutes (startTime a)) (timeToMinutes (formEndTime form)) \<and>
     numLess (timeToMinutes (formStartTime form)) (timeToMinutes (endTime a))"

lemma checkTimeConflicts_set:
  "set (checkTimeConflicts form services appointments editing) \<subseteq>
     {a \<in> set appointments. conflictsWith form editing a}"
  by (auto simp: checkTimeConflicts_def conflictsWith_def Let_def split: option.splits if_splits)

lemma checkTimeConflicts_checked:
  assumes "find (\<lambda>s. serviceId s = formServiceId form) services = Some svc"
    and "\<not> resources svc > 1"
    and "formServiceId form \<noteq> []" and "formDate form \<noteq> []"
  shows "set (checkTimeConflicts form services appointments editing) =
     {a \<in> set appointments. conflictsWith form editing a}"
proof (cases "formStartTime form = [] \<or> formEndTime form = []")
  case True
  then have "\<not> conflictsWith form editing a" for a
    by (auto simp: conflictsWith_def timeToMinutes_Nil numLess_None)
  moreover have "checkTimeConflicts form services appointments editing = []"
    using True by (auto simp: checkTimeConflicts_def)
  ultimately show ?thesis by simp
next
  case False
  then show ?thesis using assms
    by (auto simp: checkTimeConflicts_def conflictsWith_def Let_def split: option.splits if_splits)
qed

text \<open>
  Claim C1. For a candidate whose service (found by its id) has \<open>resources = 1\<close>, the
  checker reports a conflict if and only if some other appointment of the list (one that
  is not the appointment being edited) has the same service id, the same date, a status
  other than cancelled, and, in minutes from midnight, starts before the candidate ends
  and ends after the candidate starts. An appointment that ends exactly when the
  candidate starts, or starts exactly when it ends, is never among the conflicts; neither
  is an appointment of another service; and for a service with \<open>resources > 1\<close> no
  conflict is reported. The candidate names a service and a date (the form's guard
  returns no conflict for an incomplete form).
\<close>

theorem checkTimeConflicts_overlap:
  assumes "find (\<lambda>s. serviceId s = formServiceId form) services = Some svc"
    and "formServiceId form \<noteq> []" and "formDate form \<noteq> []"
  shows
   "(resources svc = 1 \<longrightarrow>
       (hasConflict form services appointments editing \<longleftrightarrow>
          (\<exists>a \<in> set appointments.
             (\<forall>e. editing = Some e \<longrightarrow> appointmentId a \<noteq> appointmentId e) \<and>
             appointmentServiceId a = formServiceId form \<and>
             appointmentDate a = formDate form \<and>
             status a \<noteq> Cancelled \<and>
             numLess (timeToMinutes (startTime a)) (timeToMinutes (formEndTime form)) \<and>
             numLess (timeToMinutes (formStartTime form)) (timeToMinutes (endTime a))))) \<and>
    (\<forall>a. timeToMinutes (endTime a) = timeToMinutes (formStartTime form) \<or>
         timeToMinutes (startTime a) = timeToMinutes (formEndTime form) \<longrightarrow>
         a \<notin> set (checkTimeConflicts form services appointments editing)) \<and>
    (\<forall>a. appointmentServiceId a \<noteq> formServiceId form \<longrightarrow>
         a \<notin> set (checkTimeConflicts form services appointments editing)) \<and>
    (resources svc > 1 \<longrightarrow> \<not> hasConflict form services appointments editing)"
proof (intro conjI impI allI)
  assume r: "resources svc = 1"
  have s: "set (checkTimeConflicts form services appointments editing) =
     {a \<in> set appointments. conflictsWith form editing a}"
    using assms r by (intro checkTimeConflicts_checked [where svc = svc]) simp_all
  have "hasConflict form services appointments editing \<longleftrightarrow>
      set (checkTimeConflicts form services appointments editing) \<noteq> {}"
    by (simp add: hasConflict_def)
  also have "\<dots> \<longleftrightarrow> (\<exists>a \<in> set appointments. conflictsWith form editing a)"
    unfolding s by auto
  finally show "hasConflict form services appointments editing \<longleftrightarrow>
          (\<exists>a \<in> set appointments.
             (\<forall>e. editing = Some e \<longrightarrow> appointmentId a \<noteq> appointmentId e) \<and>
             appointmentServiceId a = formServiceId form \<and>
             appointmentDate a = formDate form \<and>
             status a \<noteq> Cancelled \<and>
             numLess (timeToMinutes (startTime a)) (timeToMinutes (formEndTime form)) \<and>
             numLess (timeToMinutes (formStartTime form)) (timeToMinutes (endTime a)))"
    by (auto simp: conflictsWith_def split: option.splits)
next
  fix a :: appointment
  assume "timeToMinutes (endTime a) = timeToMinutes (formStartTime form) \<or>
         timeToMinutes (startTime a) = timeToMinutes (formEndTime form)"
  then have "\<not> conflictsWith form editing a"
    by (auto simp: conflictsWith_def numLess_irrefl)
  then show "a \<notin> set (checkTimeConflicts form services appointments editing)"
    using checkTimeConflicts_set [of form services appointments editing] by auto
next
  fix a :: appointment
  assume "appointmentServiceId a \<noteq> formServiceId form"
  then have "\<not> conflictsWith form editing a"
    by (auto simp: conflictsWith_def)
  then show "a \<notin> set (checkTimeConflicts form services appointments editing)"
    using checkTimeConflicts_set [of form services appointments editing] by auto
next
  assume "1 < resources svc"
  then show "\<not> hasConflict form services appointments editing"
    using assms by (simp add: hasConflict_def checkTimeConflicts_def)
qed

lemma checkTimeConflicts_editing:
  "checkTimeConflicts form services appointments (Some e) =
   checkTimeConflicts form services
     (filter (\<lambda>a. appointmentId a \<noteq> appointmentId e) appointments) None"
  by (auto simp: checkTimeConflicts_def Let_def split: option.splits intro!: filter_cong)


definition sampleServices :: "service list" where
  "sampleServices =
     [\<lparr> serviceId = ''s1'', serviceName = ''Corte'', duration = 60, resources = 1 \<rparr>,
      \<lparr> serviceId = ''s2'', serviceName = ''Spa'', duration = 60, resources = 2 \<rparr>]"

definition sampleAppointment :: appointment where
  "sampleAppointment =
     \<lparr> appointmentId = ''a1'', clientId = ''c1'', appointmentServiceId = ''s1'',
       appointmentDate = ''2024-03-01'', startTime = ''10:00'', endTime = ''11:00'',
       status = Confirmed \<rparr>"

definition otherAppointment :: appointment where
  "otherAppointment =
     \<lparr> appointmentId = ''a2'', clientId = ''c2'', appointmentServiceId = ''s1'',
       appointmentDate = ''2024-03-01'', startTime = ''10:30'', endTime = ''11:30'',
       status = Pending \<rparr>"

definition candidate :: "string \<Rightarrow> string \<Rightarrow> string \<Rightarrow> formData" where
  "candidate sid start finish =
     \<lparr> formClientId = ''c9'', formServiceId = sid, formDate = ''2024-03-01'',
       formStartTime = start, formEndTime = finish, formStatus = Pending \<rparr>"

lemma timeToMinutes_samples:
  "timeToMinutes ''10:00'' = Some 600" "timeToMinutes ''11:00'' = Some 660"
  "timeToMinutes ''12:00'' = Some 720" "timeToMinutes ''10:30'' = Some 630"
  "timeToMinutes ''10:45'' = Some 645" "timeToMinutes ''11:30'' = Some 690"
  by (simp_all add: timeToMinutes_def Number_js_def digitValue_def)

theorem checkTimeConflicts_overlap_witness:
  "hasConflict (candidate ''s1'' ''10:30'' ''10:45'') sampleServices [sampleAppointment] None \<and>
   \<not> hasConflict (candidate ''s1'' ''11:00'' ''12:00'') sampleServices [sampleAppointment] None \<and>
   \<not> hasConflict (candidate ''s2'' ''10:00'' ''11:00'') sampleServices
        [sampleAppointment\<lparr> appointmentServiceId := ''s2'' \<rparr>] None \<and>
   sampleAppointment \<notin> set (checkTimeConflicts (candidate ''s2'' ''10:00'' ''11:00'')
        sampleServices [sampleAppointment] None)"
  using checkTimeConflicts_overlap [of "candidate ''s1'' ''10:30'' ''10:45''" sampleServices
      "\<lparr> serviceId = ''s1'', serviceName = ''Corte'', duration = 60, resources = 1 \<rparr>"
      "[sampleAppointment]" None]
    checkTimeConflicts_overlap [of "candidate ''s1'' ''11:00'' ''12:00''" sampleServices
      "\<lparr> serviceId = ''s1'', serviceName = ''Corte'', duration = 60, resources = 1 \<rparr>"
      "[sampleAppointment]" None]
    checkTimeConflicts_overlap [of "candidate ''s2'' ''10:00'' ''11:00''" sampleServices
      "\<lparr> serviceId = ''s2'', serviceName = ''Spa'', duration = 60, resources = 2 \<rparr>"
      "[sampleAppointment\<lparr> appointmentServiceId := ''s2'' \<rparr>]" None]
    checkTimeConflicts_overlap [of "candidate ''s2'' ''10:00'' ''11:00''" sampleServices
      "\<lparr> serviceId = ''s2'', serviceName = ''Spa'', duration = 60, resources = 2 \<rparr>"
      "[sampleAppointment]" None]
  by (simp add: candidate_def sampleServices_def sampleAppointment_def timeToMinutes_samples
      numLess_def)

text \<open>
  Claim C7. When an appointment is edited, no conflict reported has that appointment's
  id: the conflicts are those computed on the list without it. So the appointment is
  never a conflict of its own unchanged date and times, and when it is the only
  appointment of the list, saving it again reports no conflict.
\<close>

theorem editing_excludes_itself:
  "(\<forall>a \<in> set (checkTimeConflicts form services appointments (Some e)).
      appointmentId a \<noteq> appointmentId e) \<and>
   checkTimeConflicts form services appointments (Some e) =
     checkTimeConflicts form services
       (filter (\<lambda>a. appointmentId a \<noteq> appointmentId e) appointments) None \<and>
   e \<notin> set (checkTimeConflicts (formOfAppointment e) services appointments (Some e)) \<and>
   \<not> hasConflict (formOfAppointment e) services [e] (Some e)"
proof (intro conjI)
  show a: "\<forall>a \<in> set (checkTimeConflicts form services appointments (Some e)).
      appointmentId a \<noteq> appointmentId e" for form appointments
    using checkTimeConflicts_set [of form services appointments "Some e"]
    by (auto simp: conflictsWith_def)
  show "checkTimeConflicts form services appointments (Some e) =
     checkTimeConflicts form services
       (filter (\<lambda>a. appointmentId a \<noteq> appointmentId e) appointments) None"
    by (rule checkTimeConflicts_editing)
  show "e \<notin> set (checkTimeConflicts (formOfAppointment e) services appointments (Some e))"
    using a [of "formOfAppointment e" appointments] by auto
  show "\<not> hasConflict (formOfAppointment e) services [e] (Some e)"
    by (simp add: hasConflict_def checkTimeConflicts_editing [of _ _ "[e]"])
      (simp add: checkTimeConflicts_def split: option.splits)
qed

theorem editing_excludes_itself_witness:
  "checkTimeConflicts (formOfAppointment sampleAppointment) sampleServices
     [sampleAppointment, otherAppointment] (Some sampleAppointment) = [otherAppointment] \<and>
   checkTimeConflicts (formOfAppointment sampleAppointment) sampleServices
     [sampleAppointment, otherAppointment] None = [sampleAppointment, otherAppointment] \<and>
   \<not> hasConflict (formOfAppointment sampleAppointment) sampleServices [sampleAppointment]
       (Some sampleAppointment) \<and>
   hasConflict (formOfAppointment sampleAppointment) sampleServices [sampleAppointment] None"
  using editing_excludes_itself [of "formOfAppointment sampleAppointment" sampleServices
      "[sampleAppointment, otherAppointment]" sampleAppointment]
  by (simp add: checkTimeConflicts_def hasConflict_def formOfAppointment_def
      sampleServices_def sampleAppointment_def otherAppointment_def timeToMinutes_samples
      numLess_def)

subsection \<open>Deleting a digital record\<close>

definition ownerSession :: session where
  "ownerSession = \<lparr> currentUser = Some sampleOwner, sessionBusinessAccess = [] \<rparr>"

definition assistantSession :: session where
  "assistantSession =
     \<lparr> currentUser = Some blockedAssistant,
       sessionBusinessAccess = [(''b1'', sampleAccess)] \<rparr>"

definition visitingOwner :: user where
  "visitingOwner =
     \<lparr> uid = ''owner9'', userRole = Owner, userBusinessId = Some ''b2'',
       businessAccess = [(''b1'', sampleAccess)], currentBusiness = Some ''b2'',
       isBlocked = Some False, blockedReason = None, userUpdatedAt = None \<rparr>"

definition visitingSession :: session where
  "visitingSession =
     \<lparr> currentUser = Some visitingOwner,
       sessionBusinessAccess = [(''b1'', sampleAccess)] \<rparr>"

definition sampleRecord :: digitalRecord where
  "sampleRecord =
     \<lparr> recordClientId = ''c1'', recordServiceId = ''s1'', treatment = ''Limpieza facial'',
       createdBy = Some ''creator7'' \<rparr>"

definition orphanRecord :: digitalRecord where
  "orphanRecord =
     \<lparr> recordClientId = ''c1'', recordServiceId = ''s1'', treatment = ''Masaje'',
       createdBy = None \<rparr>"

definition sampleRecords :: "string \<times> string \<rightharpoonup> digitalRecord" where
  "sampleRecords =
     [(''b1'', ''r1'') \<mapsto> sampleRecord, (''b1'', ''r2'') \<mapsto> orphanRecord,
      (''b2'', ''r1'') \<mapsto> sampleRecord]"

text \<open>
  Claim C9, as the code has it. For every caller and every existing record,
  \<open>deleteClientRecord\<close> fails with the access error unless the caller's business id is
  the target business or the session holds a business-access entry for it. A caller who
  passes that check fails with the delete-permission error exactly when the record has a
  non-empty creator other than the caller's uid and the caller is neither an owner (of
  whatever business) nor an assistant whose business id is the target business. In
  every other case the record is removed: in particular a record without a creator is
  removed for every caller who passes the access check.
\<close>

theorem deleteClientRecord_permission:
  assumes "currentUser s = Some u"
    and "recordId \<noteq> []"
    and "records (businessId, recordId) = Some r"
  shows "deleteClientRecord s records businessId recordId =
     (if \<not> (userBusinessId u = Some businessId \<or>
              map_of (sessionBusinessAccess s) businessId \<noteq> None)
      then Inl AccessDenied
      else if nonEmpty (createdBy r) \<and> createdBy r \<noteq> Some (uid u) \<and>
              \<not> (userRole u = Owner \<or>
                 (userBusinessId u = Some businessId \<and> userRole u = Assistant))
      then Inl DeleteDenied
      else Inr (records((businessId, recordId) := None)))"
  using assms
  by (auto simp: deleteClientRecord_def validateRecordAccess_def Let_def)

theorem deleteClientRecord_permission_witness:
  "deleteClientRecord assistantSession sampleRecords ''b1'' ''r1'' = Inl DeleteDenied \<and>
   deleteClientRecord assistantSession sampleRecords ''b2'' ''r1'' = Inl AccessDenied \<and>
   deleteClientRecord ownerSession sampleRecords ''b1'' ''r1'' =
     Inr (sampleRecords((''b1'', ''r1'') := None)) \<and>
   deleteClientRecord assistantSession sampleRecords ''b1'' ''r2'' =
     Inr (sampleRecords((''b1'', ''r2'') := None))"
proof -
  have r: "sampleRecords (''b1'', ''r1'') = Some sampleRecord"
    "sampleRecords (''b2'', ''r1'') = Some sampleRecord"
    "sampleRecords (''b1'', ''r2'') = Some orphanRecord"
    by (simp_all add: sampleRecords_def)
  have "deleteClientRecord assistantSession sampleRecords ''b1'' ''r1'' = Inl DeleteDenied"
    using deleteClientRecord_permission [of assistantSession blockedAssistant "''r1''"
        sampleRecords "''b1''" sampleRecord] r
    by (simp add: assistantSession_def blockedAssistant_def sampleRecord_def nonEmpty_def)
  moreover
  have "deleteClientRecord assistantSession sampleRecords ''b2'' ''r1'' = Inl AccessDenied"
    using deleteClientRecord_permission [of assistantSession blockedAssistant "''r1''"
        sampleRecords "''b2''" sampleRecord] r
    by (simp add: assistantSession_def blockedAssistant_def)
  moreover
  have "deleteClientRecord ownerSession sampleRecords ''b1'' ''r1'' =
     Inr (sampleRecords((''b1'', ''r1'') := None))"
    using deleteClientRecord_permission [of ownerSession sampleOwner "''r1''"
        sampleRecords "''b1''" sampleRecord] r
    by (simp add: ownerSession_def sampleOwner_def)
  moreover
  have "deleteClientRecord assistantSession sampleRecords ''b1'' ''r2'' =
     Inr (sampleRecords((''b1'', ''r2'') := None))"
    using deleteClientRecord_permission [of assistantSession blockedAssistant "''r2''"
        sampleRecords "''b1''" orphanRecord] r
    by (simp add: assistantSession_def blockedAssistant_def orphanRecord_def nonEmpty_def)
  ultimately show ?thesis by simp
qed

text \<open>
  Two callers who are not the creator and are deleted for: an assistant with only a
  business-access entry, on a record that has no creator; and the owner of another
  business who holds a business-access entry for the target business.
\<close>

theorem deleteClientRecord_counterexample:
  "sampleRecords (''b1'', ''r2'') = Some orphanRecord \<and>
   createdBy orphanRecord \<noteq> Some (uid blockedAssistant) \<and>
   userRole blockedAssistant = Assistant \<and>
   userBusinessId blockedAssistant \<noteq> Some ''b1'' \<and>
   deleteClientRecord assistantSession sampleRecords ''b1'' ''r2'' =
     Inr (sampleRecords((''b1'', ''r2'') := None)) \<and>
   sampleRecords (''b1'', ''r1'') = Some sampleRecord \<and>
   createdBy sampleRecord \<noteq> Some (uid visitingOwner) \<and>
   userBusinessId visitingOwner = Some ''b2'' \<and>
   deleteClientRecord visitingSession sampleRecords ''b1'' ''r1'' =
     Inr (sampleRecords((''b1'', ''r1'') := None))"
  by (simp add: deleteClientRecord_def validateRecordAccess_def nonEmpty_def Let_def
      sampleRecords_def sampleRecord_def orphanRecord_def assistantSession_def
      visitingSession_def blockedAssistant_def visitingOwner_def)

subsection \<open>Renewal count\<close>

definition sampleBusiness :: business where
  "sampleBusiness =
     \<lparr> businessName = ''Salon'', ownerId = ''owner1'', businessKey = ''ABCDEF0123456789'',
       license = Some sampleLicense, businessIsActive = Some True,
       businessUpdatedAt = None \<rparr>"




subsection \<open>Block and unblock cascade\<close>

text \<open>The association of a user with a business, in the words of the specification.\<close>

definition associated :: "string \<Rightarrow> user \<Rightarrow> bool" where
  "associated businessId u \<longleftrightarrow>
     userBusinessId u = Some businessId \<or>
     businessId \<in> fst ` set (businessAccess u) \<or>
     (userRole u = Owner \<and> currentBusiness u = Some businessId)"

text \<open>
  The store's \<^verbatim>\<open>update(ref, values)\<close> reads each key of \<open>values\<close> as a path relative to
  \<open>ref\<close> (so the key \<^verbatim>\<open>'license/isActive'\<close> of \<open>blockBusinessForExpiredLicense\<close>, issued at
  the business, is the flag of that business's license). The locations an update writes
  are therefore the segments of its reference followed by the segments of the key; empty
  segments do not count, and the root reference has none.
\<close>

definition pathSegments :: "string \<Rightarrow> string list" where
  "pathSegments p = filter (\<lambda>seg. seg \<noteq> []) (splitOn CHR ''/'' p)"

definition writtenLocations :: "storeUpdate \<Rightarrow> (string list \<times> jsonValue) list" where
  "writtenLocations upd =
     map (\<lambda>(k, v). (pathSegments (updateRef upd) @ pathSegments k, v)) (updateValues upd)"

definition issued :: "storeUpdate option \<Rightarrow> (string list \<times> jsonValue) list" where
  "issued w = (case w of None \<Rightarrow> [] | Some upd \<Rightarrow> writtenLocations upd)"

text \<open>The fields of one user written below a base location.\<close>

definition userWrites ::
  "string list \<Rightarrow> string \<Rightarrow> (string \<times> jsonValue) list \<Rightarrow> (string list \<times> jsonValue) list" where
  "userWrites base userId pairs = map (\<lambda>(f, v). (base @ [userId, f], v)) pairs"

lemma splitOn_not_Nil: "splitOn c s \<noteq> []"
  by (induction s) (auto split: list.splits)

lemma splitOn_no_separator: "c \<notin> set s \<Longrightarrow> splitOn c s = [s]"
  by (induction s) auto

lemma splitOn_separator: "splitOn c (a @ c # b) = splitOn c a @ splitOn c b"
proof (induction a)
  case Nil
  show ?case by simp
next
  case (Cons x a)
  show ?case
  proof (cases "x = c")
    case True
    then show ?thesis using Cons by simp
  next
    case False
    obtain w ws where w: "splitOn c a = w # ws"
      using splitOn_not_Nil [of c a] by (cases "splitOn c a") auto
    show ?thesis using False Cons w by simp
  qed
qed

lemma pathSegments_userPath:
  assumes "userId \<noteq> []" and "CHR ''/'' \<notin> set userId"
    and "field \<noteq> []" and "CHR ''/'' \<notin> set field"
  shows "pathSegments (userPath userId field) = [''users'', userId, field]"
proof -
  have "userPath userId field = ''users'' @ CHR ''/'' # (userId @ CHR ''/'' # field)"
    by (simp add: userPath_def)
  then have "splitOn CHR ''/'' (userPath userId field) =
      splitOn CHR ''/'' ''users'' @ splitOn CHR ''/'' userId @ splitOn CHR ''/'' field"
    by (simp only: splitOn_separator)
  then show ?thesis
    using assms by (simp add: pathSegments_def splitOn_no_separator)
qed

lemma pathSegments_users: "pathSegments ''users'' = [''users'']"
  by (simp add: pathSegments_def)

lemma pathSegments_root: "pathSegments [] = []"
  by (simp add: pathSegments_def)

lemma shouldBlock_iff: "shouldBlock businessId u \<longleftrightarrow> associated businessId u"
  by (auto simp: shouldBlock_def associated_def Let_def map_of_eq_None_iff)

lemma shouldUnblock_iff:
  "shouldUnblock businessId u \<longleftrightarrow> truthy (isBlocked u) \<and> associated businessId u"
  by (auto simp: shouldUnblock_def associated_def Let_def map_of_eq_None_iff)


lemma issued_at:
  "issued (if users = [] then None
           else (let updates = ups in
                 if length updates > 0 then Some \<lparr> updateRef = r, updateValues = updates \<rparr>
                 else None)) =
   (if users = [] then [] else map (\<lambda>(k, v). (pathSegments r @ pathSegments k, v)) ups)"
  by (simp add: issued_def writtenLocations_def Let_def)

lemma located_blockUpdates:
  assumes "\<forall>uid \<in> fst ` set users. uid \<noteq> [] \<and> CHR ''/'' \<notin> set uid"
  shows "map (\<lambda>(k, v). (base @ pathSegments k, v)) (blockUpdates now users businessId reason) =
     concat (map (\<lambda>(uid, u).
       if associated businessId u
       then userWrites (base @ [''users'']) uid
              [(''isBlocked'', JBool True), (''blockedReason'', JString reason),
               (''updatedAt'', JTime now)]
       else []) users)"
  using assms
proof (induction users)
  case Nil
  show ?case by (simp add: blockUpdates_def)
next
  case (Cons p users)
  obtain uid u where p: "p = (uid, u)" by (cases p)
  have ih: "map (\<lambda>(k, v). (base @ pathSegments k, v)) (blockUpdates now users businessId reason) =
     concat (map (\<lambda>(uid, u).
       if associated businessId u
       then userWrites (base @ [''users'']) uid
              [(''isBlocked'', JBool True), (''blockedReason'', JString reason),
               (''updatedAt'', JTime now)]
       else []) users)"
    using Cons by simp
  have ok: "uid \<noteq> []" "CHR ''/'' \<notin> set uid" using Cons.prems p by simp_all
  have "blockUpdates now (p # users) businessId reason =
      (if associated businessId u
       then [(userPath uid ''isBlocked'', JBool True),
             (userPath uid ''blockedReason'', JString reason),
             (userPath uid ''updatedAt'', JTime now)]
       else []) @ blockUpdates now users businessId reason"
    by (simp add: blockUpdates_def p shouldBlock_iff)
  then show ?case
    using ih ok by (simp add: p userWrites_def pathSegments_userPath)
qed

lemma located_unblockUpdates:
  assumes "\<forall>uid \<in> fst ` set users. uid \<noteq> [] \<and> CHR ''/'' \<notin> set uid"
  shows "map (\<lambda>(k, v). (base @ pathSegments k, v)) (unblockUpdates now users businessId) =
     concat (map (\<lambda>(uid, u).
       if truthy (isBlocked u) \<and> associated businessId u
       then userWrites (base @ [''users'']) uid
              [(''isBlocked'', JBool False), (''blockedReason'', JNull),
               (''updatedAt'', JTime now)]
       else []) users)"
  using assms
proof (induction users)
  case Nil
  show ?case by (simp add: unblockUpdates_def)
next
  case (Cons p users)
  obtain uid u where p: "p = (uid, u)" by (cases p)
  have ih: "map (\<lambda>(k, v). (base @ pathSegments k, v)) (unblockUpdates now users businessId) =
     concat (map (\<lambda>(uid, u).
       if truthy (isBlocked u) \<and> associated businessId u
       then userWrites (base @ [''users'']) uid
              [(''isBlocked'', JBool False), (''blockedReason'', JNull),
               (''updatedAt'', JTime now)]
       else []) users)"
    using Cons by simp
  have ok: "uid \<noteq> []" "CHR ''/'' \<notin> set uid" using Cons.prems p by simp_all
  have "unblockUpdates now (p # users) businessId =
      (if truthy (isBlocked u) \<and> associated businessId u
       then [(userPath uid ''isBlocked'', JBool False),
             (userPath uid ''blockedReason'', JNull),
             (userPath uid ''updatedAt'', JTime now)]
       else []) @ unblockUpdates now users businessId"
    by (simp add: unblockUpdates_def p shouldUnblock_iff)
  then show ?case
    using ih ok by (simp add: p userWrites_def pathSegments_userPath)
qed

lemma userWrites_length:
  "loc \<in> fst ` set (concat (map (\<lambda>(uid, u). if P uid u then userWrites base uid (pairs uid u) else [])
      users)) \<Longrightarrow> length loc = length base + 2"
  by (auto simp: userWrites_def split: if_splits)


lemma issued_blockBusinessUsers:
  "issued (blockBusinessUsers now users businessId reason) =
     map (\<lambda>(k, v). ([''users''] @ pathSegments k, v)) (blockUpdates now users businessId reason)"
  unfolding blockBusinessUsers_def issued_at
  by (simp add: pathSegments_users blockUpdates_def)

lemma issued_unblockBusinessUsers:
  "issued (unblockBusinessUsers now users businessId) =
     map (\<lambda>(k, v). ([''users''] @ pathSegments k, v)) (unblockUpdates now users businessId)"
  unfolding unblockBusinessUsers_def issued_at
  by (simp add: pathSegments_users unblockUpdates_def)

text \<open>
  Claim C3. The claim requires the block cascade to mark blocked, and the unblock cascade
  to clear, the users that satisfy the association. The code chooses the users by the
  three predicates (the unblock cascade among the blocked users only), but it issues
  the update at the reference \<open>users\<close> with keys that begin with \<open>users/\<close>: with user
  ids that are proper store keys, every write of either cascade, also when invoked by
  \<open>cancelLicense\<close>, \<open>blockBusinessForExpiredLicense\<close> and \<open>assignLicense\<close>, lands at
  \<open>users/users/{id}/{field}\<close>, and no location \<open>users/{id}/{field}\<close> is written: no user is
  marked blocked or cleared.
\<close>

theorem cascade_writes_misplaced:
  assumes "\<forall>uid \<in> fst ` set users. uid \<noteq> [] \<and> CHR ''/'' \<notin> set uid"
  shows
   "issued (blockBusinessUsers now users businessId reason) =
      concat (map (\<lambda>(uid, u).
        if associated businessId u
        then userWrites [''users'', ''users''] uid
               [(''isBlocked'', JBool True), (''blockedReason'', JString reason),
                (''updatedAt'', JTime now)]
        else []) users) \<and>
    issued (unblockBusinessUsers now users businessId) =
      concat (map (\<lambda>(uid, u).
        if truthy (isBlocked u) \<and> associated businessId u
        then userWrites [''users'', ''users''] uid
               [(''isBlocked'', JBool False), (''blockedReason'', JNull),
                (''updatedAt'', JTime now)]
        else []) users) \<and>
    (\<forall>bs w. cancelLicense now businesses users businessId adminUserId = Inr (bs, w) \<longrightarrow>
       w = blockBusinessUsers now users businessId ''Licencia cancelada por administrador'') \<and>
    snd (blockBusinessForExpiredLicense now businesses users businessId) =
      blockBusinessUsers now users businessId ''Licencia expirada'' \<and>
    (\<forall>bs w. assignLicense tza now businesses users businessId ty adminUserId = Inr (bs, w) \<longrightarrow>
       w = unblockBusinessUsers now users businessId) \<and>
    (\<forall>uid f v.
       ([''users'', uid, f], v) \<notin> set (issued (blockBusinessUsers now users businessId reason)) \<and>
       ([''users'', uid, f], v) \<notin> set (issued (unblockBusinessUsers now users businessId)))"
proof -
  have b: "issued (blockBusinessUsers now users businessId reason) =
      concat (map (\<lambda>(uid, u).
        if associated businessId u
        then userWrites [''users'', ''users''] uid
               [(''isBlocked'', JBool True), (''blockedReason'', JString reason),
                (''updatedAt'', JTime now)]
        else []) users)"
    unfolding issued_blockBusinessUsers
    using located_blockUpdates [OF assms, of "[''users'']" now businessId reason]
    by (simp cong: if_cong)
  have c: "issued (unblockBusinessUsers now users businessId) =
      concat (map (\<lambda>(uid, u).
        if truthy (isBlocked u) \<and> associated businessId u
        then userWrites [''users'', ''users''] uid
               [(''isBlocked'', JBool False), (''blockedReason'', JNull),
                (''updatedAt'', JTime now)]
        else []) users)"
    unfolding issued_unblockBusinessUsers
    using located_unblockUpdates [OF assms, of "[''users'']" now businessId]
    by (simp cong: if_cong)
  have d: "w = blockBusinessUsers now users businessId ''Licencia cancelada por administrador''"
    if "cancelLicense now businesses users businessId adminUserId = Inr (bs, w)" for bs w
    using that by (auto simp: cancelLicense_def Let_def split: option.splits)
  have e: "w = unblockBusinessUsers now users businessId"
    if "assignLicense tza now businesses users businessId ty adminUserId = Inr (bs, w)" for bs w
    using that by (auto simp: assignLicense_def Let_def split: option.splits)
  have f: "snd (blockBusinessForExpiredLicense now businesses users businessId) =
      blockBusinessUsers now users businessId ''Licencia expirada''"
    by (simp add: blockBusinessForExpiredLicense_def)
  have g: "([''users'', uid, fld], v) \<notin> set (issued (blockBusinessUsers now users businessId reason))"
    for uid fld v
  proof
    assume "([''users'', uid, fld], v) \<in> set (issued (blockBusinessUsers now users businessId reason))"
    then have "[''users'', uid, fld] \<in> fst ` set (issued (blockBusinessUsers now users businessId reason))"
      by force
    then have "length [''users'', uid, fld] = length [''users'', ''users''] + 2"
      unfolding b by (rule userWrites_length)
    then show False by simp
  qed
  have h: "([''users'', uid, fld], v) \<notin> set (issued (unblockBusinessUsers now users businessId))"
    for uid fld v
  proof
    assume "([''users'', uid, fld], v) \<in> set (issued (unblockBusinessUsers now users businessId))"
    then have "[''users'', uid, fld] \<in> fst ` set (issued (unblockBusinessUsers now users businessId))"
      by force
    then have "length [''users'', uid, fld] = length [''users'', ''users''] + 2"
      unfolding c by (rule userWrites_length)
    then show False by simp
  qed
  show ?thesis
    using b c d e f g h by blast
qed


definition movedOwner :: user where
  "movedOwner =
     \<lparr> uid = ''owner2'', userRole = Owner, userBusinessId = None, businessAccess = [],
       currentBusiness = Some ''b1'', isBlocked = Some True,
       blockedReason = Some ''Licencia expirada'', userUpdatedAt = None \<rparr>"

definition outsider :: user where
  "outsider =
     \<lparr> uid = ''assistant2'', userRole = Assistant, userBusinessId = None,
       businessAccess = [(''b2'', sampleAccess\<lparr> accessBusinessId := ''b2'' \<rparr>)],
       currentBusiness = Some ''b1'', isBlocked = Some True,
       blockedReason = Some ''Licencia expirada'', userUpdatedAt = None \<rparr>"

definition staleOwner :: user where
  "staleOwner = sampleOwner\<lparr> blockedReason := Some ''Licencia expirada'' \<rparr>"

definition sampleUsers :: "(string \<times> user) list" where
  "sampleUsers =
     [(''owner1'', sampleOwner), (''assistant1'', blockedAssistant),
      (''owner2'', movedOwner), (''assistant2'', outsider)]"

theorem cascade_writes_misplaced_witness:
  "associated ''b1'' sampleOwner \<and>
   (\<exists>bs. cancelLicense 1707955200001 [''b1'' \<mapsto> sampleBusiness] [(''owner1'', sampleOwner)]
            ''b1'' ''admin1'' =
          Inr (bs, blockBusinessUsers 1707955200001 [(''owner1'', sampleOwner)] ''b1''
                     ''Licencia cancelada por administrador'')) \<and>
   issued (blockBusinessUsers 1707955200001 [(''owner1'', sampleOwner)] ''b1''
             ''Licencia cancelada por administrador'') =
     [([''users'', ''users'', ''owner1'', ''isBlocked''], JBool True),
      ([''users'', ''users'', ''owner1'', ''blockedReason''],
         JString ''Licencia cancelada por administrador''),
      ([''users'', ''users'', ''owner1'', ''updatedAt''], JTime 1707955200001)] \<and>
   ([''users'', ''owner1'', ''isBlocked''], JBool True) \<notin>
     set (issued (blockBusinessUsers 1707955200001 [(''owner1'', sampleOwner)] ''b1''
                    ''Licencia cancelada por administrador'')) \<and>
   map fst (issued (unblockBusinessUsers 1707955200001 sampleUsers ''b1'')) =
     [[''users'', ''users'', ''assistant1'', ''isBlocked''],
      [''users'', ''users'', ''assistant1'', ''blockedReason''],
      [''users'', ''users'', ''assistant1'', ''updatedAt''],
      [''users'', ''users'', ''owner2'', ''isBlocked''],
      [''users'', ''users'', ''owner2'', ''blockedReason''],
      [''users'', ''users'', ''owner2'', ''updatedAt'']]"
proof -
  have a: "associated ''b1'' sampleOwner" "associated ''b1'' blockedAssistant"
    "associated ''b1'' movedOwner" "\<not> associated ''b1'' outsider"
    by (simp_all add: associated_def sampleOwner_def blockedAssistant_def movedOwner_def
        outsider_def)
  have t: "\<not> truthy (isBlocked sampleOwner)" "truthy (isBlocked blockedAssistant)"
    "truthy (isBlocked movedOwner)"
    by (simp_all add: truthy_def sampleOwner_def blockedAssistant_def movedOwner_def)
  have i1: "\<forall>uid \<in> fst ` set [(''owner1'', sampleOwner)]. uid \<noteq> [] \<and> CHR ''/'' \<notin> set uid"
    by simp
  have i2: "\<forall>uid \<in> fst ` set sampleUsers. uid \<noteq> [] \<and> CHR ''/'' \<notin> set uid"
    by (simp add: sampleUsers_def)
  have c: "\<exists>bs. cancelLicense 1707955200001 [''b1'' \<mapsto> sampleBusiness]
            [(''owner1'', sampleOwner)] ''b1'' ''admin1'' =
          Inr (bs, blockBusinessUsers 1707955200001 [(''owner1'', sampleOwner)] ''b1''
                     ''Licencia cancelada por administrador'')"
    by (simp add: cancelLicense_def sampleBusiness_def Let_def)
  show ?thesis
    using cascade_writes_misplaced [OF i1, of 1707955200001 "''b1''"
        "''Licencia cancelada por administrador''"]
      cascade_writes_misplaced [OF i2, of 1707955200001 "''b1''"]
      a t c
    by (simp add: userWrites_def sampleUsers_def)
qed

text \<open>
  Issued at the root reference, as the multi-path updates of the session layer
  (\<open>addBusinessAccess\<close>) and of the notification service (\<open>markAllAsRead\<close>) are, the same
  keys would reach the records of the users.
\<close>

lemma cascade_at_root_reference:
  assumes "\<forall>uid \<in> fst ` set users. uid \<noteq> [] \<and> CHR ''/'' \<notin> set uid"
  shows "writtenLocations \<lparr> updateRef = [], updateValues = blockUpdates now users businessId reason \<rparr> =
     concat (map (\<lambda>(uid, u).
       if associated businessId u
       then userWrites [''users''] uid
              [(''isBlocked'', JBool True), (''blockedReason'', JString reason),
               (''updatedAt'', JTime now)]
       else []) users)"
  using located_blockUpdates [OF assms, of "[]" now businessId reason]
  by (simp add: writtenLocations_def pathSegments_root cong: if_cong)

text \<open>
  The unblock cascade tests the association only for a user who is blocked: for an
  associated user who is not, it issues nothing, and a stale reason would stay.
\<close>

lemma unblock_skips_user_not_blocked:
  "associated ''b1'' staleOwner \<and>
   blockedReason staleOwner = Some ''Licencia expirada'' \<and>
   unblockBusinessUsers 1707955200001 [(''owner1'', staleOwner)] ''b1'' = None"
  by (simp add: associated_def staleOwner_def sampleOwner_def
      unblockBusinessUsers_def unblockUpdates_def shouldUnblock_def truthy_def)

subsection \<open>Business keys\<close>













subsection \<open>Calendar arithmetic of the end date\<close>









text \<open>Auxiliary tables: the day of the year a month starts on, and the length of a month.\<close>

definition leapDays :: "int \<Rightarrow> int" where
  "leapDays y = (if DaysInYear y = 366 then 1 else 0)"




lemma leapDays_range: "leapDays y = 0 \<or> leapDays y = 1"
  by (simp add: leapDays_def)







































end
